theory Spec2Isabelle
  imports Complex_Main "HOL-Library.Log_Nat"
begin

section \<open>Values, errors and tabular datasets\<close>

text \<open>
  The pipeline steps of \<^verbatim>\<open>model.py\<close> work on pandas data frames. A cell is a
  string, a number or the float \<^verbatim>\<open>nan\<close>; numbers are rationals, so that a mean is
  the exact quotient. A data frame is the ordered list of its named columns, and a target
  vector \<^verbatim>\<open>y\<close> is a list of numbers, read by position.

  Every raise of the Python code is an \<open>Inl\<close> result that carries the exception class and
  the key, attribute or message the exception names.
\<close>

datatype cell = Str string | Num rat | NaN

datatype error =
    KeyError string
  | AttributeError string
  | TypeError string
  | ValueError string

type_synonym frame = "(string \<times> cell list) list"

text \<open>\<^verbatim>\<open>X[c]\<close>: the column named \<open>c\<close>, KeyError when there is none.\<close>

definition getitem :: "frame \<Rightarrow> string \<Rightarrow> error + cell list" where
  "getitem X c = (case map_of X c of None \<Rightarrow> Inl (KeyError c) | Some col \<Rightarrow> Inr col)"

text \<open>
  \<^verbatim>\<open>X[c] = col\<close>: pandas overwrites the column named \<open>c\<close> where it stands, and
  appends a new last column when no column has that name.
\<close>

definition setitem :: "frame \<Rightarrow> string \<Rightarrow> cell list \<Rightarrow> frame" where
  "setitem X c col =
     (if c \<in> set (map fst X)
      then map (\<lambda>(n, old). if n = c then (n, col) else (n, old)) X
      else X @ [(c, col)])"

text \<open>
  \<^verbatim>\<open>series.apply(f)\<close> calls \<open>f\<close> on each element in turn; the first call that raises
  ends it. On a series without elements \<open>f\<close> is never called.
\<close>

fun series_apply :: "('a \<Rightarrow> error + 'b) \<Rightarrow> 'a list \<Rightarrow> error + 'b list" where
  "series_apply f [] = Inr []"
| "series_apply f (x # xs) =
     (case f x of
        Inl e \<Rightarrow> Inl e
      | Inr v \<Rightarrow> (case series_apply f xs of Inl e \<Rightarrow> Inl e | Inr vs \<Rightarrow> Inr (v # vs)))"

text \<open>\<^verbatim>\<open>y.mean()\<close>: the arithmetic mean, \<^verbatim>\<open>nan\<close> for a vector without elements.\<close>

definition mean :: "rat list \<Rightarrow> cell" where
  "mean ys = (if ys = [] then NaN else Num (sum_list ys / of_nat (length ys)))"





text \<open>
  An array of the library is a list of columns. The library refuses an array that has
  columns and no rows (\<^verbatim>\<open>Found array with 0 sample(s)\<close>); the columns of a data frame
  all have the same number of values.
\<close>

definition no_rows :: "'a list list \<Rightarrow> bool" where
  "no_rows cols = (cols \<noteq> [] \<and> list_all (\<lambda>col. col = []) cols)"

section \<open>Average charges per region\<close>

text \<open>
  \<^verbatim>\<open>pd.DataFrame({"region": X["region"], "y": y})\<close> pairs the region column with the
  target by position and refuses vectors of different lengths.
\<close>

definition region_y_frame :: "frame \<Rightarrow> rat list \<Rightarrow> error + (cell \<times> rat) list" where
  "region_y_frame X y =
     (case getitem X ''region'' of
        Inl e \<Rightarrow> Inl e
      | Inr region \<Rightarrow>
          if length region \<noteq> length y
          then Inl (ValueError ''array length does not match index length'')
          else Inr (zip region y))"

text \<open>
  \<^verbatim>\<open>df.groupby("region").mean().to_dict()["y"]\<close>: one entry for each distinct region
  of the rows, holding the mean of \<open>y\<close> over the rows with that region. pandas forms no
  group for a \<^verbatim>\<open>nan\<close> key.
\<close>

definition groupby_mean :: "(cell \<times> rat) list \<Rightarrow> (cell \<times> cell) list" where
  "groupby_mean df =
     map (\<lambda>k. (k, mean (map snd (filter (\<lambda>row. fst row = k) df))))
       (remdups (filter (\<lambda>k. k \<noteq> NaN) (map fst df)))"

text \<open>
  The attributes \<^verbatim>\<open>means_\<close> and \<^verbatim>\<open>global_mean_\<close> that \<^verbatim>\<open>fit\<close> sets (an
  Isabelle name cannot end in an underscore); an object that was never fitted has none.
\<close>

record region_means =
  means :: "(cell \<times> cell) list"
  global_mean :: cell

definition AverageChargesPerRegionRegressor_fit ::
  "frame \<Rightarrow> rat list \<Rightarrow> error + region_means" where
  "AverageChargesPerRegionRegressor_fit X y =
     (case region_y_frame X y of
        Inl e \<Rightarrow> Inl e
      | Inr df \<Rightarrow> Inr \<lparr>means = groupby_mean df, global_mean = mean y\<rparr>)"

text \<open>
  The local function \<^verbatim>\<open>get_average\<close> of \<^verbatim>\<open>predict\<close> and of \<^verbatim>\<open>transform\<close>. It reads
  \<^verbatim>\<open>self.means_\<close>, which raises AttributeError on an object without that attribute.
\<close>

definition get_average :: "region_means option \<Rightarrow> cell \<Rightarrow> error + cell" where
  "get_average self x =
     (case self of
        None \<Rightarrow> Inl (AttributeError ''means_'')
      | Some s \<Rightarrow>
          (case map_of (means s) x of
             Some m \<Rightarrow> Inr m
           | None \<Rightarrow> Inr (global_mean s)))"

definition AverageChargesPerRegionRegressor_predict ::
  "region_means option \<Rightarrow> frame \<Rightarrow> error + cell list" where
  "AverageChargesPerRegionRegressor_predict self X =
     (case getitem X ''region'' of
        Inl e \<Rightarrow> Inl e
      | Inr region \<Rightarrow> series_apply (get_average self) region)"

definition AverageChargesPerRegionExtractor_fit ::
  "frame \<Rightarrow> rat list \<Rightarrow> error + region_means" where
  "AverageChargesPerRegionExtractor_fit X y =
     (case region_y_frame X y of
        Inl e \<Rightarrow> Inl e
      | Inr df \<Rightarrow> Inr \<lparr>means = groupby_mean df, global_mean = mean y\<rparr>)"

text \<open>
  \<^verbatim>\<open>transform\<close> assigns a column to a data frame, so the frames live in a store: a
  reference is an index into the list of frames. \<^verbatim>\<open>X.copy()\<close> allocates a new frame
  with the same columns, and the assignment updates the frame the reference points to.
\<close>

type_synonym store = "frame list"

definition df_copy :: "store \<Rightarrow> nat \<Rightarrow> store \<times> nat" where
  "df_copy h a = (h @ [h ! a], length h)"

definition df_setitem :: "store \<Rightarrow> nat \<Rightarrow> string \<Rightarrow> cell list \<Rightarrow> store" where
  "df_setitem h a c col = h[a := setitem (h ! a) c col]"

definition AverageChargesPerRegionExtractor_transform ::
  "region_means option \<Rightarrow> store \<Rightarrow> nat \<Rightarrow> error + store \<times> nat" where
  "AverageChargesPerRegionExtractor_transform self h a =
     (case df_copy h a of
        (h1, X) \<Rightarrow>
          (case getitem (h1 ! X) ''region'' of
             Inl e \<Rightarrow> Inl e
           | Inr region \<Rightarrow>
               (case series_apply (get_average self) region of
                  Inl e \<Rightarrow> Inl e
                | Inr col \<Rightarrow> Inr (df_setitem h1 X ''AverageChargeInRegion'' col, X))))"

text \<open>
  What the specification expects for a query region \<open>r\<close> after training on the regions
  \<open>regs\<close> with targets \<open>y\<close>: the mean over the training rows with that region when the
  region occurred, the mean of all targets otherwise. A \<^verbatim>\<open>nan\<close> is equal to no value,
  itself included, so it never occurred.
\<close>

definition occurred :: "cell \<Rightarrow> cell list \<Rightarrow> bool" where
  "occurred r regs = (r \<noteq> NaN \<and> r \<in> set regs)"

definition expected_average :: "cell list \<Rightarrow> rat list \<Rightarrow> cell \<Rightarrow> cell" where
  "expected_average regs y r =
     (if occurred r regs
      then mean (map snd (filter (\<lambda>row. fst row = r) (zip regs y)))
      else mean y)"

section \<open>Categorical encoder\<close>

text \<open>
  The module \<^verbatim>\<open>data\<close> is not part of \<^verbatim>\<open>model.py\<close>: the lists of column names
  and the mapping from a column name to its declared category values are parameters.
\<close>

record column_registry =
  get_binary_column_names :: "string list"
  get_categorical_column_names :: "string list"
  get_categorical_variables_values_mapping :: "(string \<times> cell list) list"

text \<open>
  The column transformer that \<^verbatim>\<open>fit\<close> builds: one encoder over the categorical
  column names, with the declared category lists, and \<^verbatim>\<open>remainder="drop"\<close>.
\<close>

record encoder_transformer =
  encoder_one_hot :: bool
  encoder_categories :: "cell list list"
  encoder_columns :: "string list"

record CategoricalEncoder =
  one_hot :: bool
  force_dense_array :: bool
  categorical_column_names :: "string list"
  categories :: "cell list list"
  n_features_in :: "nat option"
  column_transformer :: "encoder_transformer option"

text \<open>\<^verbatim>\<open>[mapping[k] for k in names]\<close>: the first missing key raises KeyError.\<close>

fun lookup_all :: "(string \<times> 'a) list \<Rightarrow> string list \<Rightarrow> error + 'a list" where
  "lookup_all mapping [] = Inr []"
| "lookup_all mapping (k # ks) =
     (case map_of mapping k of
        None \<Rightarrow> Inl (KeyError k)
      | Some v \<Rightarrow> (case lookup_all mapping ks of Inl e \<Rightarrow> Inl e | Inr vs \<Rightarrow> Inr (v # vs)))"

definition CategoricalEncoder_init ::
  "column_registry \<Rightarrow> bool \<Rightarrow> bool \<Rightarrow> error + CategoricalEncoder" where
  "CategoricalEncoder_init data oh dense =
     (let names = get_binary_column_names data @ get_categorical_column_names data
      in case lookup_all (get_categorical_variables_values_mapping data) names of
           Inl e \<Rightarrow> Inl e
         | Inr cats \<Rightarrow>
             Inr \<lparr>one_hot = oh, force_dense_array = dense,
                  categorical_column_names = names, categories = cats,
                  n_features_in = None, column_transformer = None\<rparr>)"

text \<open>
  The column transformer takes its columns by name. At \<^verbatim>\<open>fit\<close> it looks the names up
  and refuses a dataset that lacks one with ValueError; at \<^verbatim>\<open>transform\<close> it indexes
  the data frame with the names, which raises KeyError for a missing one.
\<close>

fun select_columns :: "frame \<Rightarrow> string list \<Rightarrow> error + cell list list" where
  "select_columns X [] = Inr []"
| "select_columns X (c # cs) =
     (case map_of X c of
        None \<Rightarrow> Inl (ValueError ''A given column is not a column of the dataframe'')
      | Some col \<Rightarrow>
          (case select_columns X cs of Inl e \<Rightarrow> Inl e | Inr cols \<Rightarrow> Inr (col # cols)))"

fun take_columns :: "frame \<Rightarrow> string list \<Rightarrow> error + cell list list" where
  "take_columns X [] = Inr []"
| "take_columns X (c # cs) =
     (case map_of X c of
        None \<Rightarrow> Inl (KeyError c)
      | Some col \<Rightarrow>
          (case take_columns X cs of Inl e \<Rightarrow> Inl e | Inr cols \<Rightarrow> Inr (col # cols)))"

text \<open>
  The two encoders, on one column with its declared categories \<open>cats\<close>. Both refuse a
  value that is not among \<open>cats\<close> (\<^verbatim>\<open>handle_unknown="error"\<close>). The ordinal encoder
  gives one column, holding the position of each value in \<open>cats\<close>. The one-hot encoder
  with \<^verbatim>\<open>drop="first"\<close> gives one indicator column for each category but the first.
  The result of the transformer is an array without column names: the list of its columns.
  \<^verbatim>\<open>force_dense_array\<close> selects a dense or a sparse array with the same entries.
\<close>

definition ordinal_column :: "cell list \<Rightarrow> cell list \<Rightarrow> cell list list" where
  "ordinal_column cats col =
     [map (\<lambda>x. Num (of_nat (length (takeWhile (\<lambda>c. c \<noteq> x) cats)))) col]"

definition one_hot_columns :: "cell list \<Rightarrow> cell list \<Rightarrow> cell list list" where
  "one_hot_columns cats col =
     map (\<lambda>c. map (\<lambda>x. if x = c then Num 1 else Num 0) col) (tl cats)"

definition encode_column :: "bool \<Rightarrow> cell list \<Rightarrow> cell list \<Rightarrow> error + cell list list" where
  "encode_column oh cats col =
     (if \<not> list_all (\<lambda>x. x \<in> set cats) col
      then Inl (ValueError ''Found unknown categories'')
      else Inr (if oh then one_hot_columns cats col else ordinal_column cats col))"

fun encode_columns ::
  "bool \<Rightarrow> cell list list \<Rightarrow> cell list list \<Rightarrow> error + cell list list" where
  "encode_columns oh (cats # catss) (col # cols) =
     (case encode_column oh cats col of
        Inl e \<Rightarrow> Inl e
      | Inr block \<Rightarrow>
          (case encode_columns oh catss cols of
             Inl e \<Rightarrow> Inl e
           | Inr blocks \<Rightarrow> Inr (block @ blocks)))"
| "encode_columns oh [] [] = Inr []"
| "encode_columns oh _ _ =
     Inl (ValueError ''Shape mismatch: categories has to be of shape (n_features,)'')"

text \<open>
  The encoder on the columns that the transformer took: it refuses an array without rows,
  then encodes column by column.
\<close>

definition encode_array ::
  "bool \<Rightarrow> cell list list \<Rightarrow> cell list list \<Rightarrow> error + cell list list" where
  "encode_array oh catss cols =
     (if no_rows cols
      then Inl (ValueError ''Found array with 0 sample(s)'')
      else encode_columns oh catss cols)"

definition encoder_transform ::
  "encoder_transformer \<Rightarrow> frame \<Rightarrow> error + cell list list" where
  "encoder_transform ct X =
     (case take_columns X (encoder_columns ct) of
        Inl e \<Rightarrow> Inl e
      | Inr cols \<Rightarrow> encode_array (encoder_one_hot ct) (encoder_categories ct) cols)"

text \<open>
  Fitting the column transformer checks the training data against the declared categories;
  nothing is learned from the data, so the fitted transformer is the configured one.
\<close>

definition encoder_fit ::
  "encoder_transformer \<Rightarrow> frame \<Rightarrow> error + encoder_transformer" where
  "encoder_fit ct X =
     (case select_columns X (encoder_columns ct) of
        Inl e \<Rightarrow> Inl e
      | Inr cols \<Rightarrow>
          (case encode_array (encoder_one_hot ct) (encoder_categories ct) cols of
             Inl e \<Rightarrow> Inl e
           | Inr _ \<Rightarrow> Inr ct))"

definition CategoricalEncoder_fit ::
  "CategoricalEncoder \<Rightarrow> frame \<Rightarrow> error + CategoricalEncoder" where
  "CategoricalEncoder_fit self X =
     (let ct = \<lparr>encoder_one_hot = one_hot self,
                encoder_categories = categories self,
                encoder_columns = categorical_column_names self\<rparr>
      in case encoder_fit ct X of
           Inl e \<Rightarrow> Inl e
         | Inr fitted \<Rightarrow>
             Inr (self\<lparr>n_features_in := Some (length X), column_transformer := Some fitted\<rparr>))"

definition CategoricalEncoder_transform ::
  "CategoricalEncoder \<Rightarrow> frame \<Rightarrow> error + cell list list" where
  "CategoricalEncoder_transform self X =
     (case column_transformer self of
        None \<Rightarrow> Inl (AttributeError ''_column_transformer'')
      | Some ct \<Rightarrow> encoder_transform ct X)"

section \<open>Discretizer\<close>

text \<open>
  \<^verbatim>\<open>KBinsDiscretizer(n_bins, encode="ordinal", strategy)\<close> places the bin edges of
  each column at fit time. Where the edges are placed is the library's binning algorithm,
  a parameter \<open>bin_edges\<close> that takes the strategy, the number of bins and the column.
  The ordinal code of a value is the number of upper edges it has reached, clipped to the
  last bin. The discretizer refuses a value that is not a number and an array without
  rows.
\<close>

fun numeric_column :: "cell list \<Rightarrow> error + rat list" where
  "numeric_column [] = Inr []"
| "numeric_column (Num r # col) =
     (case numeric_column col of Inl e \<Rightarrow> Inl e | Inr rs \<Rightarrow> Inr (r # rs))"
| "numeric_column (_ # col) = Inl (ValueError ''could not convert to float'')"

fun numeric_columns :: "cell list list \<Rightarrow> error + rat list list" where
  "numeric_columns [] = Inr []"
| "numeric_columns (col # cols) =
     (case numeric_column col of
        Inl e \<Rightarrow> Inl e
      | Inr rs \<Rightarrow> (case numeric_columns cols of Inl e \<Rightarrow> Inl e | Inr rss \<Rightarrow> Inr (rs # rss)))"

definition kbins_fit ::
  "(string \<Rightarrow> int \<Rightarrow> rat list \<Rightarrow> rat list) \<Rightarrow> string \<Rightarrow> int list \<Rightarrow> cell list list
     \<Rightarrow> error + rat list list" where
  "kbins_fit bin_edges strat n_bins cols =
     (case numeric_columns cols of
        Inl e \<Rightarrow> Inl e
      | Inr rss \<Rightarrow>
          if no_rows rss
          then Inl (ValueError ''Found array with 0 sample(s)'')
          else if strat \<notin> set [''uniform'', ''quantile'', ''kmeans'']
          then Inl (ValueError ''Valid options for strategy are (uniform, quantile, kmeans)'')
          else if length n_bins \<noteq> length rss
          then Inl (ValueError ''n_bins must be a scalar or array of shape (n_features,)'')
          else if \<not> list_all (\<lambda>n. 2 \<le> n) n_bins
          then Inl (ValueError ''invalid number of bins'')
          else Inr (map (\<lambda>(n, rs). bin_edges strat n rs) (zip n_bins rss)))"








text \<open>
  The column transformer of the discretizer: the binning on the configured columns,
  \<^verbatim>\<open>remainder="passthrough"\<close> for the other columns of the training dataset. At
  \<^verbatim>\<open>transform\<close> it takes all these columns by name: it refuses a dataset that lacks a
  passed-through column, a missing configured column raises KeyError, and a column that
  the training dataset did not have is left out. Its result is an array without column
  names: the binned columns first, then the other columns in the order of the training
  dataset.
\<close>

record kbins_transformer =
  kbins_columns :: "string list"
  kbins_bin_edges :: "rat list list"
  kbins_feature_names :: "string list"

definition passthrough_fit ::
  "(string \<Rightarrow> int \<Rightarrow> rat list \<Rightarrow> rat list) \<Rightarrow> string \<Rightarrow> int list \<Rightarrow> string list \<Rightarrow> frame
     \<Rightarrow> error + kbins_transformer" where
  "passthrough_fit bin_edges strat n_bins cs X =
     (case select_columns X cs of
        Inl e \<Rightarrow> Inl e
      | Inr cols \<Rightarrow>
          (case kbins_fit bin_edges strat n_bins cols of
             Inl e \<Rightarrow> Inl e
           | Inr edges \<Rightarrow>
               Inr \<lparr>kbins_columns = cs, kbins_bin_edges = edges,
                    kbins_feature_names = map fst X\<rparr>))"




text \<open>
  \<^verbatim>\<open>a, b = zip(*items)\<close>: the keys and the values of a dictionary; with no item there
  is nothing to unpack.
\<close>

definition unzip_items :: "('k \<times> 'v) list \<Rightarrow> error + 'k list \<times> 'v list" where
  "unzip_items items =
     (if items = []
      then Inl (ValueError ''not enough values to unpack (expected 2, got 0)'')
      else Inr (map fst items, map snd items))"

text \<open>The attributes that \<^verbatim>\<open>Discretizer.fit\<close> sets.\<close>

record Discretizer_fitted =
  discretizer_n_features_in :: nat
  original_column_order :: "string list"
  columns :: "string list"
  new_column_order :: "string list"
  discretizer_column_transformer :: kbins_transformer

record Discretizer =
  bins_per_column :: "(string \<times> int) list"
  strategy :: string
  fitted :: "Discretizer_fitted option"


definition Discretizer_fit ::
  "(string \<Rightarrow> int \<Rightarrow> rat list \<Rightarrow> rat list) \<Rightarrow> Discretizer \<Rightarrow> frame \<Rightarrow> rat list
     \<Rightarrow> error + Discretizer" where
  "Discretizer_fit bin_edges self X y =
     (let n = length X; original = map fst X
      in case unzip_items (bins_per_column self) of
           Inl e \<Rightarrow> Inl e
         | Inr (cs, n_bins) \<Rightarrow>
             (let new_order =
                    cs @ filter (\<lambda>name. name \<notin> set (map fst (bins_per_column self))) original
              in case passthrough_fit bin_edges (strategy self) n_bins cs X of
                   Inl e \<Rightarrow> Inl e
                 | Inr ct \<Rightarrow>
                     Inr (self\<lparr>fitted :=
                            Some \<lparr>discretizer_n_features_in = n,
                                  original_column_order = original,
                                  columns = cs,
                                  new_column_order = new_order,
                                  discretizer_column_transformer = ct\<rparr>\<rparr>)))"




section \<open>Bagging regressor\<close>

text \<open>
  \<^verbatim>\<open>BaggingRegressor(base_estimator=LinearRegression(), random_state=0).fit(X, y)\<close>
  trains the ensemble in the library: the parameter \<open>BaggingRegressor_fit\<close>, which takes
  the value of \<^verbatim>\<open>random_state\<close> and the data. The prediction of a trained ensemble is
  the parameter \<open>ensemble_predict\<close>.
\<close>

definition BaggRegressor_fit ::
  "(nat \<Rightarrow> frame \<Rightarrow> rat list \<Rightarrow> error + 'm) \<Rightarrow> frame \<Rightarrow> rat list \<Rightarrow> error + 'm option" where
  "BaggRegressor_fit BaggingRegressor_fit X y =
     (case BaggingRegressor_fit 0 X y of
        Inl e \<Rightarrow> Inl e
      | Inr model \<Rightarrow> Inr (Some model))"

definition BaggRegressor_predict ::
  "('m \<Rightarrow> frame \<Rightarrow> error + rat list) \<Rightarrow> 'm option \<Rightarrow> frame \<Rightarrow> error + rat list" where
  "BaggRegressor_predict ensemble_predict self X =
     (case self of
        None \<Rightarrow> Inl (AttributeError ''_model'')
      | Some model \<Rightarrow> ensemble_predict model X)"

section \<open>Estimator registry and pipeline builder\<close>

datatype estimator_class =
    AverageChargesPerRegionExtractor_cls
  | AverageChargesPerRegionRegressor_cls
  | LinearRegression_cls
  | LogisticRegression_cls
  | CategoricalEncoder_cls
  | OneHotEncoder_cls
  | StandardScaler_cls
  | BaggRegressor_cls
  | Discretizer_cls

definition get_estimator_mapping :: "(string \<times> estimator_class) list" where
  "get_estimator_mapping =
     [(''average-charges-extractor'', AverageChargesPerRegionExtractor_cls),
      (''average-charges-regressor'', AverageChargesPerRegionRegressor_cls),
      (''linear-regressor'', LinearRegression_cls),
      (''logistic-regressor'', LogisticRegression_cls),
      (''categorical-encoder'', CategoricalEncoder_cls),
      (''one-hot-encoder'', OneHotEncoder_cls),
      (''standard-scaler'', StandardScaler_cls),
      (''bagging'', BaggRegressor_cls),
      (''discretizer'', Discretizer_cls)]"

text \<open>
  A configuration entry, and the object that \<^verbatim>\<open>cls(**params)\<close> creates: an instance
  of the class that holds the keyword arguments it was constructed with. A pipeline is the
  list of its named steps.
\<close>

record 'v config_step =
  name :: string
  params :: "(string \<times> 'v) list"

datatype 'v estimator = Estimator estimator_class "(string \<times> 'v) list"

datatype 'v pipeline = Pipeline "(string \<times> 'v estimator) list"

text \<open>
  The keyword arguments of each constructor: those it requires and those it accepts. The
  classes of \<^verbatim>\<open>model.py\<close> are read off their \<^verbatim>\<open>__init__\<close> (a class without one
  takes no argument); the keyword arguments of the library's classes, which all have
  defaults, are the parameter \<open>library_keywords\<close>.
\<close>

definition init_keywords ::
  "(estimator_class \<Rightarrow> string list) \<Rightarrow> estimator_class \<Rightarrow> string list \<times> string list" where
  "init_keywords library_keywords cls =
     (case cls of
        AverageChargesPerRegionExtractor_cls \<Rightarrow> ([], [])
      | AverageChargesPerRegionRegressor_cls \<Rightarrow> ([], [])
      | BaggRegressor_cls \<Rightarrow> ([], [])
      | CategoricalEncoder_cls \<Rightarrow> ([], [''one_hot'', ''force_dense_array''])
      | Discretizer_cls \<Rightarrow> ([''bins_per_column'', ''strategy''], [''bins_per_column'', ''strategy''])
      | _ \<Rightarrow> ([], library_keywords cls))"

text \<open>
  \<^verbatim>\<open>cls(**params)\<close> raises TypeError for a keyword the constructor does not accept and
  for a required keyword that is missing. The constructor of the categorical encoder also
  reads the column registry, whatever its two flags are.
\<close>

definition instantiate ::
  "column_registry \<Rightarrow> (estimator_class \<Rightarrow> string list) \<Rightarrow> estimator_class
     \<Rightarrow> (string \<times> 'v) list \<Rightarrow> error + 'v estimator" where
  "instantiate data library_keywords cls kwargs =
     (case init_keywords library_keywords cls of
        (required, accepted) \<Rightarrow>
          if \<not> list_all (\<lambda>k. k \<in> set accepted) (map fst kwargs)
          then Inl (TypeError ''got an unexpected keyword argument'')
          else if \<not> list_all (\<lambda>k. k \<in> set (map fst kwargs)) required
          then Inl (TypeError ''missing required keyword-only arguments'')
          else if cls = CategoricalEncoder_cls
          then (case CategoricalEncoder_init data False False of
                  Inl e \<Rightarrow> Inl e
                | Inr _ \<Rightarrow> Inr (Estimator cls kwargs))
          else Inr (Estimator cls kwargs))"

text \<open>The loop of \<^verbatim>\<open>build_estimator\<close>, with \<open>steps\<close> the list built so far.\<close>

fun build_steps ::
  "column_registry \<Rightarrow> (estimator_class \<Rightarrow> string list) \<Rightarrow> (string \<times> 'v estimator) list
     \<Rightarrow> 'v config_step list \<Rightarrow> error + (string \<times> 'v estimator) list" where
  "build_steps data library_keywords steps [] = Inr steps"
| "build_steps data library_keywords steps (step # config) =
     (case map_of get_estimator_mapping (name step) of
        None \<Rightarrow> Inl (KeyError (name step))
      | Some cls \<Rightarrow>
          (case instantiate data library_keywords cls (params step) of
             Inl e \<Rightarrow> Inl e
           | Inr estimator \<Rightarrow>
               build_steps data library_keywords (steps @ [(name step, estimator)]) config))"

definition build_estimator ::
  "column_registry \<Rightarrow> (estimator_class \<Rightarrow> string list) \<Rightarrow> 'v config_step list
     \<Rightarrow> error + 'v pipeline" where
  "build_estimator data library_keywords config =
     (case build_steps data library_keywords [] config of
        Inl e \<Rightarrow> Inl e
      | Inr steps \<Rightarrow> Inr (Pipeline steps))"

section \<open>Predicates of the specification\<close>

text \<open>
  A configuration entry is valid when its name is a key of the registry and the class
  found there constructs from the entry's parameters.
\<close>

definition resolves ::
  "column_registry \<Rightarrow> (estimator_class \<Rightarrow> string list) \<Rightarrow> 'v config_step \<Rightarrow> bool" where
  "resolves data library_keywords step =
     (case map_of get_estimator_mapping (name step) of
        None \<Rightarrow> False
      | Some cls \<Rightarrow>
          instantiate data library_keywords cls (params step) = Inr (Estimator cls (params step)))"

text \<open>A step is as the configuration entry asks: same name, the registry's class, the entry's parameters.\<close>

definition step_of :: "'v config_step \<Rightarrow> string \<times> 'v estimator \<Rightarrow> bool" where
  "step_of step named =
     (fst named = name step \<and>
      (case map_of get_estimator_mapping (name step) of
         None \<Rightarrow> False
       | Some cls \<Rightarrow> snd named = Estimator cls (params step)))"

text \<open>
  The error that a configuration entry raises by itself, if any: the KeyError of the
  registry lookup for an unknown name, else the error of the constructor.
\<close>

definition step_error ::
  "column_registry \<Rightarrow> (estimator_class \<Rightarrow> string list) \<Rightarrow> 'v config_step \<Rightarrow> error option" where
  "step_error data library_keywords step =
     (case map_of get_estimator_mapping (name step) of
        None \<Rightarrow> Some (KeyError (name step))
      | Some cls \<Rightarrow>
          (case instantiate data library_keywords cls (params step) of
             Inl e \<Rightarrow> Some e
           | Inr _ \<Rightarrow> None))"


text \<open>
  The column of \<open>X\<close> named \<open>c\<close>. The dataset \<open>X\<close> is without rows when the columns
  of \<open>names\<close> have no values.
\<close>

definition column_of :: "frame \<Rightarrow> string \<Rightarrow> cell list" where
  "column_of X c = (case map_of X c of None \<Rightarrow> [] | Some col \<Rightarrow> col)"

definition without_rows :: "frame \<Rightarrow> string list \<Rightarrow> bool" where
  "without_rows X names = no_rows (map (column_of X) names)"

text \<open>
  The dataset \<open>X\<close> has every column of \<open>names\<close>; the values of these columns lie in the
  declared categories; one of these columns holds a value outside its declared categories.
\<close>

definition columns_present :: "string list \<Rightarrow> frame \<Rightarrow> bool" where
  "columns_present names X = list_all (\<lambda>c. map_of X c \<noteq> None) names"

definition within_domains :: "string list \<Rightarrow> cell list list \<Rightarrow> frame \<Rightarrow> bool" where
  "within_domains names catss X =
     list_all (\<lambda>(c, cats). case map_of X c of
                              None \<Rightarrow> False
                            | Some col \<Rightarrow> list_all (\<lambda>x. x \<in> set cats) col) (zip names catss)"

definition unknown_category :: "string list \<Rightarrow> cell list list \<Rightarrow> frame \<Rightarrow> bool" where
  "unknown_category names catss X =
     list_ex (\<lambda>(c, cats). case map_of X c of
                             None \<Rightarrow> False
                           | Some col \<Rightarrow> list_ex (\<lambda>x. x \<notin> set cats) col) (zip names catss)"

text \<open>
  The dataset \<open>Y\<close> has the column names of \<open>X\<close> and the same values in the columns
  of \<open>names\<close>: it differs from \<open>X\<close> in the other columns only.
\<close>

definition same_categorical_columns :: "string list \<Rightarrow> frame \<Rightarrow> frame \<Rightarrow> bool" where
  "same_categorical_columns names X Y =
     (map fst Y = map fst X \<and> list_all (\<lambda>c. map_of Y c = map_of X c) names)"

text \<open>
  The columns that the encoder gives for one categorical column \<open>col\<close> with the
  declared categories \<open>cats\<close>. In one-hot mode there is one column for each category but
  the first: the \<open>j\<close>-th of them has 1 in the rows whose value is the category after the
  \<open>j\<close>-th and 0 in the others. In ordinal mode there is one column: it has in each row
  the position of the row's value in \<open>cats\<close>.
\<close>

definition encoded_block :: "bool \<Rightarrow> cell list \<Rightarrow> cell list \<Rightarrow> cell list list \<Rightarrow> bool" where
  "encoded_block oh cats col block =
     (if oh
      then length block = length cats - 1
           \<and> list_all (\<lambda>j. block ! j = map (\<lambda>x. if x = cats ! Suc j then Num 1 else Num 0) col)
                [0..<length block]
      else (case block of
              [codes] \<Rightarrow>
                length codes = length col
                \<and> list_all (\<lambda>i. list_ex (\<lambda>k. codes ! i = Num (of_nat k) \<and> cats ! k = col ! i
                                            \<and> col ! i \<notin> set (take k cats))
                                 [0..<length cats])
                     [0..<length col]
            | _ \<Rightarrow> False))"

definition encoded_from :: "bool \<Rightarrow> frame \<Rightarrow> string \<times> cell list \<Rightarrow> cell list list \<Rightarrow> bool" where
  "encoded_from oh X declared block =
     (case map_of X (fst declared) of
        None \<Rightarrow> False
      | Some col \<Rightarrow> encoded_block oh (snd declared) col block)"







section \<open>Example data\<close>

text \<open>
  A column registry for an insurance dataset, and keyword arguments of the library's
  classes.
\<close>

definition example_registry :: column_registry where
  "example_registry =
     \<lparr>get_binary_column_names = [''sex'', ''smoker''],
      get_categorical_column_names = [''region''],
      get_categorical_variables_values_mapping =
        [(''sex'', [Str ''female'', Str ''male'']),
         (''smoker'', [Str ''no'', Str ''yes'']),
         (''region'', [Str ''northeast'', Str ''northwest'', Str ''southeast'',
                       Str ''southwest''])]\<rparr>"

definition example_keywords :: "estimator_class \<Rightarrow> string list" where
  "example_keywords cls =
     (case cls of
        LinearRegression_cls \<Rightarrow> [''fit_intercept'', ''copy_X'', ''n_jobs'', ''positive'']
      | LogisticRegression_cls \<Rightarrow> [''penalty'', ''C'', ''fit_intercept'', ''max_iter'']
      | OneHotEncoder_cls \<Rightarrow> [''categories'', ''drop'', ''sparse'', ''handle_unknown'']
      | StandardScaler_cls \<Rightarrow> [''copy'', ''with_mean'', ''with_std'']
      | _ \<Rightarrow> [])"

definition example_patients :: frame where
  "example_patients =
     [(''age'', [Num 18, Num 30, Num 64]),
      (''sex'', [Str ''female'', Str ''male'', Str ''male'']),
      (''smoker'', [Str ''no'', Str ''no'', Str ''yes'']),
      (''region'', [Str ''southwest'', Str ''southwest'', Str ''northeast''])]"

definition example_encoder :: CategoricalEncoder where
  "example_encoder =
     \<lparr>one_hot = True, force_dense_array = False,
      categorical_column_names = [''sex'', ''smoker'', ''region''],
      categories = [[Str ''female'', Str ''male''], [Str ''no'', Str ''yes''],
                    [Str ''northeast'', Str ''northwest'', Str ''southeast'', Str ''southwest'']],
      n_features_in = None, column_transformer = None\<rparr>"

definition example_fitted_encoder :: CategoricalEncoder where
  "example_fitted_encoder =
     example_encoder
       \<lparr>n_features_in := Some 4,
        column_transformer :=
          Some \<lparr>encoder_one_hot = True,
                encoder_categories = categories example_encoder,
                encoder_columns = categorical_column_names example_encoder\<rparr>\<rparr>"



section \<open>Auxiliary facts\<close>

lemma series_apply_total:
  "(\<And>x. x \<in> set xs \<Longrightarrow> f x = Inr (g x)) \<Longrightarrow> series_apply f xs = Inr (map g xs)"
  by (induction xs) auto

lemma map_of_groupby_mean:
  "map_of (groupby_mean df) r =
     (if r \<noteq> NaN \<and> r \<in> fst ` set df
      then Some (mean (map snd (filter (\<lambda>row. fst row = r) df))) else None)"
  unfolding groupby_mean_def by (simp add: map_of_map_restrict restrict_map_def)

lemma get_average_fitted:
  assumes "length y = length regs"
  shows "get_average (Some \<lparr>means = groupby_mean (zip regs y), global_mean = mean y\<rparr>) r =
     Inr (expected_average regs y r)"
proof -
  from assms have "fst ` set (zip regs y) = set regs"
    by (metis map_fst_zip set_map)
  then show ?thesis
    by (simp add: get_average_def map_of_groupby_mean expected_average_def occurred_def)
qed

lemma get_average_returns: "\<exists>v. get_average (Some s) x = Inr v"
  by (simp add: get_average_def split: option.splits)

lemma series_apply_returns:
  "(\<And>x. \<exists>v. f x = Inr v) \<Longrightarrow> \<exists>col. series_apply f xs = Inr col \<and> length col = length xs"
proof (induction xs)
  case Nil
  then show ?case by simp
next
  case (Cons x xs)
  from Cons.prems obtain v where "f x = Inr v" by blast
  moreover from Cons obtain col where "series_apply f xs = Inr col" "length col = length xs"
    by blast
  ultimately show ?case by simp
qed

lemma map_of_setitem: "map_of (setitem X c col) c = Some col"
proof -
  have "c \<in> set (map fst X) \<Longrightarrow>
      map_of (map (\<lambda>(n, old). if n = c then (n, col) else (n, old)) X) c = Some col"
    by (induction X) auto
  moreover have "c \<notin> set (map fst X) \<Longrightarrow> map_of (X @ [(c, col)]) c = Some col"
    by (induction X) auto
  ultimately show ?thesis by (simp add: setitem_def)
qed

lemma build_steps_valid:
  "list_all (resolves data lk) config \<Longrightarrow>
   build_steps data lk steps config =
     Inr (steps @ map (\<lambda>step. (name step,
            Estimator (the (map_of get_estimator_mapping (name step))) (params step))) config)"
proof (induction config arbitrary: steps)
  case Nil
  then show ?case by simp
next
  case (Cons step config)
  then show ?case
    by (auto simp: resolves_def split: option.splits)
qed

lemma instantiate_Inr:
  "instantiate data lk cls kwargs = Inr est \<Longrightarrow> est = Estimator cls kwargs"
  by (auto simp: instantiate_def split: prod.splits if_splits sum.splits)

lemma resolves_iff: "resolves data lk step \<longleftrightarrow> step_error data lk step = None"
  by (auto simp: resolves_def step_error_def dest: instantiate_Inr split: option.splits sum.splits)

lemma build_steps_first_error:
  "list_all (resolves data lk) good \<Longrightarrow> step_error data lk bad = Some e \<Longrightarrow>
   build_steps data lk steps (good @ bad # rest) = Inl e"
proof (induction good arbitrary: steps)
  case Nil
  then show ?case
    by (auto simp: step_error_def split: option.splits sum.splits)
next
  case (Cons step good)
  then show ?case
    by (auto simp: resolves_def split: option.splits)
qed

lemma take_columns_present:
  "columns_present cs X \<Longrightarrow> take_columns X cs = Inr (map (column_of X) cs)"
  by (induction cs) (auto simp: columns_present_def column_of_def)

lemma take_columns_cong:
  "\<forall>c\<in>set cs. map_of Y c = map_of X c \<Longrightarrow> take_columns Y cs = take_columns X cs"
  by (induction cs) (simp_all split: option.splits)




















lemma lookup_all_length: "lookup_all m ks = Inr vs \<Longrightarrow> length vs = length ks"
  by (induction ks arbitrary: vs) (auto split: option.splits sum.splits)

lemma CategoricalEncoder_init_Inr:
  "CategoricalEncoder_init data oh dense = Inr enc \<Longrightarrow>
   one_hot enc = oh \<and> length (categories enc) = length (categorical_column_names enc)
   \<and> column_transformer enc = None"
  by (auto simp: CategoricalEncoder_init_def Let_def lookup_all_length split: sum.splits)

lemma CategoricalEncoder_fit_Inr:
  "CategoricalEncoder_fit enc Xtrain = Inr enc' \<Longrightarrow>
   column_transformer enc' =
     Some \<lparr>encoder_one_hot = one_hot enc, encoder_categories = categories enc,
           encoder_columns = categorical_column_names enc\<rparr>"
  by (auto simp: CategoricalEncoder_fit_def encoder_fit_def Let_def split: sum.splits)

lemma position_less:
  "x \<in> set cats \<Longrightarrow> length (takeWhile (\<lambda>c. c \<noteq> x) cats) < length cats"
  by (induction cats) auto

lemma position_first:
  assumes "x \<in> set cats"
  shows "cats ! length (takeWhile (\<lambda>c. c \<noteq> x) cats) = x
       \<and> x \<notin> set (take (length (takeWhile (\<lambda>c. c \<noteq> x) cats)) cats)"
proof -
  let ?k = "length (takeWhile (\<lambda>c. c \<noteq> x) cats)"
  have "?k < length cats" using assms by (rule position_less)
  then have "cats ! ?k = x" using nth_length_takeWhile [of "\<lambda>c. c \<noteq> x" cats] by simp
  moreover have "take ?k cats = takeWhile (\<lambda>c. c \<noteq> x) cats"
    by (rule takeWhile_eq_take [symmetric])
  then have "x \<notin> set (take ?k cats)" by (auto dest: set_takeWhileD)
  ultimately show ?thesis by simp
qed

lemma encode_column_block:
  assumes "list_all (\<lambda>x. x \<in> set cats) col"
  shows "\<exists>block. encode_column oh cats col = Inr block \<and> encoded_block oh cats col block"
proof (cases oh)
  case True
  have "encoded_block True cats col (one_hot_columns cats col)"
    by (simp add: encoded_block_def one_hot_columns_def list_all_iff nth_tl)
  with True assms show ?thesis by (simp add: encode_column_def)
next
  case False
  have "list_ex (\<lambda>k. Num (of_nat (length (takeWhile (\<lambda>c. c \<noteq> col ! i) cats))) = Num (of_nat k)
          \<and> cats ! k = col ! i \<and> col ! i \<notin> set (take k cats)) [0..<length cats]"
    if "i < length col" for i
  proof -
    from that assms have "col ! i \<in> set cats" by (simp add: list_all_length)
    from position_less [OF this] position_first [OF this] show ?thesis
      unfolding list_ex_iff by (intro bexI [of _ "length (takeWhile (\<lambda>c. c \<noteq> col ! i) cats)"]) simp_all
  qed
  then have "encoded_block False cats col (ordinal_column cats col)"
    by (simp add: encoded_block_def ordinal_column_def list_all_iff)
  with False assms show ?thesis by (simp add: encode_column_def)
qed

lemma encode_columns_blocks:
  "length catss = length cols \<Longrightarrow>
   list_all2 (\<lambda>cats col. list_all (\<lambda>x. x \<in> set cats) col) catss cols \<Longrightarrow>
   \<exists>blocks. encode_columns oh catss cols = Inr (concat blocks)
        \<and> list_all2 (\<lambda>declared block. encoded_block oh (fst declared) (snd declared) block)
            (zip catss cols) blocks"
proof (induction catss cols rule: list_induct2)
  case Nil
  then show ?case by simp
next
  case (Cons cats catss col cols)
  from Cons.prems obtain block where b: "encode_column oh cats col = Inr block"
    "encoded_block oh cats col block"
    using encode_column_block by (metis list_all2_Cons)
  from Cons obtain blocks where bs: "encode_columns oh catss cols = Inr (concat blocks)"
    "list_all2 (\<lambda>declared block. encoded_block oh (fst declared) (snd declared) block)
       (zip catss cols) blocks" by auto
  have "encode_columns oh (cats # catss) (col # cols) = Inr (concat (block # blocks))"
    by (simp add: b bs)
  moreover have "list_all2 (\<lambda>declared block. encoded_block oh (fst declared) (snd declared) block)
      (zip (cats # catss) (col # cols)) (block # blocks)"
    by (simp add: b bs)
  ultimately show ?case by blast
qed

lemma encode_columns_unknown:
  "length catss = length cols \<Longrightarrow>
   list_ex (\<lambda>(cats, col). list_ex (\<lambda>x. x \<notin> set cats) col) (zip catss cols) \<Longrightarrow>
   encode_columns oh catss cols = Inl (ValueError ''Found unknown categories'')"
proof (induction catss cols rule: list_induct2)
  case Nil
  then show ?case by simp
next
  case (Cons cats catss col cols)
  show ?case
  proof (cases "list_all (\<lambda>x. x \<in> set cats) col")
    case True
    then have "\<not> list_ex (\<lambda>x. x \<notin> set cats) col" by (simp add: list_all_iff list_ex_iff)
    with Cons have "encode_columns oh catss cols = Inl (ValueError ''Found unknown categories'')"
      by simp
    then show ?thesis using True by (simp add: encode_column_def)
  next
    case False
    then show ?thesis by (simp add: encode_column_def)
  qed
qed

section \<open>Average charges per region: fitted means and fallback\<close>

text \<open>
  Claim C1. Train on a dataset whose column \<^verbatim>\<open>region\<close> is \<open>regs\<close>, with targets \<open>y\<close>.
  Both \<^verbatim>\<open>fit\<close> methods return, with the same fitted means. For a query dataset with
  region column \<open>qs\<close>, the regressor predicts for each row, and the extractor writes into
  the column \<^verbatim>\<open>AverageChargeInRegion\<close> of its result, the mean of \<open>y\<close> over the training
  rows with the row's region when that region occurred in training, and the mean of all
  of \<open>y\<close> when it did not (\<open>expected_average\<close>).
\<close>

theorem region_average_returned:
  assumes "map_of X ''region'' = Some regs" and "length y = length regs"
    and "map_of Q ''region'' = Some qs" and "a < length h" and "h ! a = Q"
  shows "\<exists>s h'. AverageChargesPerRegionRegressor_fit X y = Inr s
           \<and> AverageChargesPerRegionExtractor_fit X y = Inr s
           \<and> AverageChargesPerRegionRegressor_predict (Some s) Q
               = Inr (map (expected_average regs y) qs)
           \<and> AverageChargesPerRegionExtractor_transform (Some s) h a = Inr (h', length h)
           \<and> map_of (h' ! length h) ''AverageChargeInRegion''
               = Some (map (expected_average regs y) qs)"
proof -
  let ?s = "\<lparr>means = groupby_mean (zip regs y), global_mean = mean y\<rparr>"
  have df: "region_y_frame X y = Inr (zip regs y)"
    using assms(1,2) by (simp add: region_y_frame_def getitem_def)
  have app: "series_apply (get_average (Some ?s)) qs = Inr (map (expected_average regs y) qs)"
    by (rule series_apply_total) (simp add: get_average_fitted assms(2))
  have "AverageChargesPerRegionRegressor_fit X y = Inr ?s"
    by (simp add: AverageChargesPerRegionRegressor_fit_def df)
  moreover have "AverageChargesPerRegionExtractor_fit X y = Inr ?s"
    by (simp add: AverageChargesPerRegionExtractor_fit_def df)
  moreover have "AverageChargesPerRegionRegressor_predict (Some ?s) Q
      = Inr (map (expected_average regs y) qs)"
    using assms(3) by (simp add: AverageChargesPerRegionRegressor_predict_def getitem_def app)
  moreover have "AverageChargesPerRegionExtractor_transform (Some ?s) h a
      = Inr (h @ [setitem Q ''AverageChargeInRegion'' (map (expected_average regs y) qs)], length h)"
    using assms(3,4,5)
    by (simp add: AverageChargesPerRegionExtractor_transform_def df_copy_def getitem_def app
        df_setitem_def)
  ultimately show ?thesis by (simp add: map_of_setitem)
qed

text \<open>
  The example of the specification: regions A, A, B with charges 10, 20, 50 give 15 for
  A, 50 for B and 80/3 for the unseen region C.
\<close>

theorem region_average_returned_witness:
  "map_of [(''region'', [Str ''A'', Str ''A'', Str ''B''])] ''region''
     = Some [Str ''A'', Str ''A'', Str ''B'']
   \<and> length [10, 20, 50 :: rat] = length [Str ''A'', Str ''A'', Str ''B'']
   \<and> map_of [(''region'', [Str ''A'', Str ''B'', Str ''C''])] ''region''
     = Some [Str ''A'', Str ''B'', Str ''C'']
   \<and> (\<exists>s h'. AverageChargesPerRegionRegressor_fit
                [(''region'', [Str ''A'', Str ''A'', Str ''B''])] [10, 20, 50] = Inr s
           \<and> AverageChargesPerRegionExtractor_fit
                [(''region'', [Str ''A'', Str ''A'', Str ''B''])] [10, 20, 50] = Inr s
           \<and> AverageChargesPerRegionRegressor_predict (Some s)
                [(''region'', [Str ''A'', Str ''B'', Str ''C''])]
               = Inr [Num 15, Num 50, Num (80 / 3)]
           \<and> AverageChargesPerRegionExtractor_transform (Some s)
                [[(''region'', [Str ''A'', Str ''B'', Str ''C''])]] 0 = Inr (h', 1)
           \<and> map_of (h' ! 1) ''AverageChargeInRegion'' = Some [Num 15, Num 50, Num (80 / 3)])"
proof -
  have "map (expected_average [Str ''A'', Str ''A'', Str ''B''] [10, 20, 50])
          [Str ''A'', Str ''B'', Str ''C''] = [Num 15, Num 50, Num (80 / 3)]"
    by (simp add: expected_average_def occurred_def mean_def)
  then show ?thesis
    using region_average_returned
      [of "[(''region'', [Str ''A'', Str ''A'', Str ''B''])]" "[Str ''A'', Str ''A'', Str ''B'']"
          "[10, 20, 50]" "[(''region'', [Str ''A'', Str ''B'', Str ''C''])]"
          "[Str ''A'', Str ''B'', Str ''C'']" 0
          "[[(''region'', [Str ''A'', Str ''B'', Str ''C''])]]"]
    by simp
qed

section \<open>Pipeline builder\<close>

text \<open>
  Claim C2. For a configuration whose entries all resolve (the name is a key of the
  registry and the class constructs from the parameters), \<^verbatim>\<open>build_estimator\<close> returns a
  pipeline whose steps carry the names of the configuration in the same order, each step
  the instance of the registry's class for that name with the entry's parameters.
\<close>

theorem build_estimator_order:
  assumes "list_all (resolves data library_keywords) config"
  shows "\<exists>steps. build_estimator data library_keywords config = Inr (Pipeline steps)
           \<and> map fst steps = map name config
           \<and> list_all2 step_of config steps"
proof -
  let ?steps = "map (\<lambda>step. (name step,
            Estimator (the (map_of get_estimator_mapping (name step))) (params step))) config"
  have "build_estimator data library_keywords config = Inr (Pipeline ?steps)"
    using build_steps_valid [OF assms, of "[]"] by (simp add: build_estimator_def)
  moreover have "map fst ?steps = map name config" by (simp add: comp_def)
  moreover have "list_all2 step_of config ?steps"
    using assms
    by (auto simp: list_all2_conv_all_nth list_all_length resolves_def step_of_def
        split: option.splits)
  ultimately show ?thesis by blast
qed

theorem build_estimator_order_witness:
  "list_all (resolves example_registry example_keywords)
     [\<lparr>name = ''categorical-encoder'', params = [(''one_hot'', True)]\<rparr>,
      \<lparr>name = ''linear-regressor'', params = []\<rparr>]
   \<and> (\<exists>steps. build_estimator example_registry example_keywords
         [\<lparr>name = ''categorical-encoder'', params = [(''one_hot'', True)]\<rparr>,
          \<lparr>name = ''linear-regressor'', params = []\<rparr>] = Inr (Pipeline steps)
       \<and> map fst steps = [''categorical-encoder'', ''linear-regressor'']
       \<and> list_all2 step_of
           [\<lparr>name = ''categorical-encoder'', params = [(''one_hot'', True)]\<rparr>,
            \<lparr>name = ''linear-regressor'', params = []\<rparr>] steps)"
proof -
  have valid: "list_all (resolves example_registry example_keywords)
     [\<lparr>name = ''categorical-encoder'', params = [(''one_hot'', True)]\<rparr>,
      \<lparr>name = ''linear-regressor'', params = []\<rparr>]"
    by (simp add: resolves_def get_estimator_mapping_def instantiate_def init_keywords_def
        example_keywords_def example_registry_def CategoricalEncoder_init_def)
  from build_estimator_order [OF valid] valid show ?thesis by simp
qed

text \<open>
  Claim C7, as the code has it. A configuration with an entry whose name is not a key of
  the registry makes \<^verbatim>\<open>build_estimator\<close> fail. The entries are taken in order, so it
  fails with the error of the first entry that does not resolve: the entries before that
  one all resolve, and the error is the one that entry raises by itself. When every entry
  before the unknown name resolves, this is the KeyError of the registry lookup for that
  name (the specification's UnknownStepError).
\<close>

theorem build_estimator_unknown_name:
  assumes "map_of get_estimator_mapping (name step) = None"
  shows "\<exists>good bad rest e. pre @ step # post = good @ bad # rest
           \<and> list_all (resolves data library_keywords) good
           \<and> step_error data library_keywords bad = Some e
           \<and> build_estimator data library_keywords (pre @ step # post) = Inl e
           \<and> (list_all (resolves data library_keywords) pre \<longrightarrow> e = KeyError (name step))"
proof -
  let ?config = "pre @ step # post"
  let ?fails = "\<lambda>s. step_error data library_keywords s \<noteq> None"
  have unknown: "step_error data library_keywords step = Some (KeyError (name step))"
    using assms by (simp add: step_error_def)
  then have "\<exists>s\<in>set ?config. ?fails s" by simp
  from split_list_first_prop [OF this]
  obtain good bad rest where split: "?config = good @ bad # rest"
    and bad: "?fails bad" and good: "\<forall>s\<in>set good. \<not> ?fails s"
    by (elim exE conjE)
  from good have valid: "list_all (resolves data library_keywords) good"
    by (simp add: list_all_iff resolves_iff)
  from bad obtain e where e: "step_error data library_keywords bad = Some e"
    by (cases "step_error data library_keywords bad") simp_all
  have "build_estimator data library_keywords (good @ bad # rest) = Inl e"
    by (simp add: build_estimator_def build_steps_first_error [OF valid e])
  then have fails: "build_estimator data library_keywords ?config = Inl e"
    by (simp only: split)
  have first: "list_all (resolves data library_keywords) pre \<longrightarrow> e = KeyError (name step)"
  proof
    assume "list_all (resolves data library_keywords) pre"
    then have "build_estimator data library_keywords ?config = Inl (KeyError (name step))"
      by (simp add: build_estimator_def build_steps_first_error [OF _ unknown])
    with fails show "e = KeyError (name step)" by simp
  qed
  show ?thesis
    apply (rule exI [of _ good])
    apply (rule exI [of _ bad])
    apply (rule exI [of _ rest])
    apply (rule exI [of _ e])
    apply (intro conjI)
        apply (rule split)
       apply (rule valid)
      apply (rule e)
     apply (rule fails)
    apply (rule first)
    done
qed

theorem build_estimator_unknown_name_witness:
  "map_of get_estimator_mapping
     (name \<lparr>name = ''random-forest'', params = ([] :: (string \<times> bool) list)\<rparr>) = None
   \<and> list_all (resolves example_registry example_keywords)
        [\<lparr>name = ''bagging'', params = ([] :: (string \<times> bool) list)\<rparr>]
   \<and> build_estimator example_registry example_keywords
        [\<lparr>name = ''bagging'', params = ([] :: (string \<times> bool) list)\<rparr>,
         \<lparr>name = ''random-forest'', params = []\<rparr>]
       = Inl (KeyError ''random-forest'')"
proof -
  have unknown: "map_of get_estimator_mapping
     (name \<lparr>name = ''random-forest'', params = ([] :: (string \<times> bool) list)\<rparr>) = None"
    by (simp add: get_estimator_mapping_def)
  have valid: "list_all (resolves example_registry example_keywords)
      [\<lparr>name = ''bagging'', params = ([] :: (string \<times> bool) list)\<rparr>]"
    by (simp add: resolves_def get_estimator_mapping_def instantiate_def init_keywords_def)
  let ?pre = "[\<lparr>name = ''bagging'', params = ([] :: (string \<times> bool) list)\<rparr>]"
  let ?step = "\<lparr>name = ''random-forest'', params = ([] :: (string \<times> bool) list)\<rparr>"
  from build_estimator_unknown_name
         [OF unknown, of ?pre "[]" example_registry example_keywords]
  obtain e where fails: "build_estimator example_registry example_keywords (?pre @ ?step # [])
        = Inl e"
    and first: "list_all (resolves example_registry example_keywords) ?pre
         \<longrightarrow> e = KeyError (name ?step)"
    by (elim exE conjE)
  from first valid have "e = KeyError ''random-forest''" by simp
  with fails have "build_estimator example_registry example_keywords (?pre @ ?step # [])
        = Inl (KeyError ''random-forest'')" by (simp only:)
  then have "build_estimator example_registry example_keywords
        [\<lparr>name = ''bagging'', params = ([] :: (string \<times> bool) list)\<rparr>,
         \<lparr>name = ''random-forest'', params = []\<rparr>] = Inl (KeyError ''random-forest'')"
    by (simp only: append.simps)
  with unknown valid show ?thesis by (intro conjI)
qed

text \<open>
  The claim C7 as stated fails when an entry before the unknown name does not construct:
  \<^verbatim>\<open>BaggRegressor\<close> has no \<^verbatim>\<open>__init__\<close>, so a keyword argument raises TypeError
  before the unknown name is looked up.
\<close>

theorem build_estimator_unknown_name_counterexample:
  "build_estimator example_registry example_keywords
     [\<lparr>name = ''bagging'', params = [(''n_estimators'', True)]\<rparr>,
      \<lparr>name = ''random-forest'', params = []\<rparr>]
   = Inl (TypeError ''got an unexpected keyword argument'')"
  by (simp add: build_estimator_def get_estimator_mapping_def instantiate_def init_keywords_def)

section \<open>Discretizer\<close>




text \<open>
  Claim C10. With an empty \<^verbatim>\<open>bins_per_column\<close>, \<^verbatim>\<open>fit\<close> raises on every dataset:
  unpacking the keys and the bin counts of the empty mapping fails, whatever the binning
  algorithm is and before it is used.
\<close>

theorem discretizer_empty_bins:
  "Discretizer_fit bin_edges (self\<lparr>bins_per_column := []\<rparr>) X y
     = Inl (ValueError ''not enough values to unpack (expected 2, got 0)'')"
  by (simp add: Discretizer_fit_def unzip_items_def)

section \<open>Categorical encoder\<close>

text \<open>
  Claim C4, as the code has it. Let an encoder be constructed from the column registry and
  fitted, and let \<open>X\<close> be a dataset with at least one row whose categorical and binary
  columns hold values of their declared categories. Then \<^verbatim>\<open>transform\<close> returns the
  encoded columns only: one block of columns for each categorical or binary column, in
  their order. In one-hot mode the block of a column with \<open>k\<close> declared categories has
  \<open>k - 1\<close> columns, the indicators of the categories but the first; in ordinal mode it
  has one column, the position of each value among the declared categories. The same
  result comes from every dataset that differs from \<open>X\<close> in the other columns only.
\<close>

theorem encoder_output_columns:
  assumes init: "CategoricalEncoder_init data oh dense = Inr enc"
    and fit: "CategoricalEncoder_fit enc Xtrain = Inr enc'"
    and dom: "within_domains (categorical_column_names enc) (categories enc) X"
    and rows: "\<not> without_rows X (categorical_column_names enc)"
  shows "\<exists>blocks. CategoricalEncoder_transform enc' X = Inr (concat blocks)
           \<and> list_all2 (encoded_from oh X)
                (zip (categorical_column_names enc) (categories enc)) blocks
           \<and> (\<forall>Y. same_categorical_columns (categorical_column_names enc) X Y \<longrightarrow>
                  CategoricalEncoder_transform enc' Y = Inr (concat blocks))"
proof -
  let ?cs = "categorical_column_names enc" and ?catss = "categories enc"
  from CategoricalEncoder_init_Inr [OF init]
  have oh: "one_hot enc = oh" and len: "length ?catss = length ?cs"
    by simp_all
  have col: "\<exists>col. map_of X (?cs ! i) = Some col \<and> list_all (\<lambda>x. x \<in> set (?catss ! i)) col"
    if "i < length ?cs" for i
  proof -
    from dom that len have "case map_of X (?cs ! i) of None \<Rightarrow> False
        | Some col \<Rightarrow> list_all (\<lambda>x. x \<in> set (?catss ! i)) col"
      by (simp add: within_domains_def list_all_length)
    then show ?thesis by (cases "map_of X (?cs ! i)") simp_all
  qed
  have present: "columns_present ?cs X"
    unfolding columns_present_def list_all_length using col by auto
  let ?cols = "map (column_of X) ?cs"
  have sel: "take_columns X ?cs = Inr ?cols"
    by (rule take_columns_present [OF present])
  have nonempty: "\<not> no_rows ?cols"
    using rows by (simp add: without_rows_def)
  have "list_all2 (\<lambda>cats col. list_all (\<lambda>x. x \<in> set cats) col) ?catss ?cols"
  proof (rule list_all2_all_nthI)
    show "length ?catss = length ?cols" using len by simp
  next
    fix i assume "i < length ?catss"
    with len have i: "i < length ?cs" by simp
    from col [OF i] i show "list_all (\<lambda>x. x \<in> set (?catss ! i)) (?cols ! i)"
      by (auto simp: column_of_def)
  qed
  with len obtain blocks where enc: "encode_columns oh ?catss ?cols = Inr (concat blocks)"
    and blocks: "list_all2 (\<lambda>declared block. encoded_block oh (fst declared) (snd declared) block)
        (zip ?catss ?cols) blocks"
    using encode_columns_blocks [of ?catss ?cols oh] by auto
  have from_X: "list_all2 (encoded_from oh X) (zip ?cs ?catss) blocks"
  proof (rule list_all2_all_nthI)
    show "length (zip ?cs ?catss) = length blocks"
      using list_all2_lengthD [OF blocks] len by simp
  next
    fix i assume "i < length (zip ?cs ?catss)"
    with len have i: "i < length ?cs" "i < length ?catss" by simp_all
    from col [OF i(1)] obtain c where c: "map_of X (?cs ! i) = Some c" by blast
    then have ci: "?cols ! i = c" using i by (simp add: column_of_def)
    from blocks i len have "encoded_block oh (?catss ! i) (?cols ! i) (blocks ! i)"
      by (simp add: list_all2_conv_all_nth)
    with c ci i show "encoded_from oh X (zip ?cs ?catss ! i) (blocks ! i)"
      by (simp add: encoded_from_def)
  qed
  have tr: "CategoricalEncoder_transform enc' Y = Inr (concat blocks)"
    if "\<forall>c\<in>set ?cs. map_of Y c = map_of X c" for Y
  proof -
    have "take_columns Y ?cs = Inr ?cols"
      using take_columns_cong [OF that] sel by simp
    then show ?thesis
      using enc nonempty
      by (simp add: CategoricalEncoder_transform_def CategoricalEncoder_fit_Inr [OF fit]
          encoder_transform_def encode_array_def oh)
  qed
  have same: "\<forall>Y. same_categorical_columns ?cs X Y \<longrightarrow>
      CategoricalEncoder_transform enc' Y = Inr (concat blocks)"
  proof (intro allI impI)
    fix Y assume "same_categorical_columns ?cs X Y"
    then have "\<forall>c\<in>set ?cs. map_of Y c = map_of X c"
      by (simp add: same_categorical_columns_def list_all_iff)
    then show "CategoricalEncoder_transform enc' Y = Inr (concat blocks)" by (rule tr)
  qed
  have "CategoricalEncoder_transform enc' X = Inr (concat blocks)"
    by (rule tr) simp
  with from_X same show ?thesis by (intro exI [of _ blocks] conjI)
qed

text \<open>
  On the example, in one-hot mode; the second dataset has other ages.
\<close>

theorem encoder_output_columns_witness:
  "CategoricalEncoder_init example_registry True False = Inr example_encoder
   \<and> CategoricalEncoder_fit example_encoder example_patients = Inr example_fitted_encoder
   \<and> within_domains (categorical_column_names example_encoder) (categories example_encoder)
        example_patients
   \<and> \<not> without_rows example_patients (categorical_column_names example_encoder)
   \<and> same_categorical_columns (categorical_column_names example_encoder) example_patients
        ((''age'', [Num 0, Num 0, Num 0]) # tl example_patients)
   \<and> (\<exists>blocks. CategoricalEncoder_transform example_fitted_encoder example_patients
                 = Inr (concat blocks)
         \<and> list_all2 (encoded_from True example_patients)
              (zip (categorical_column_names example_encoder) (categories example_encoder))
              blocks
         \<and> CategoricalEncoder_transform example_fitted_encoder
              ((''age'', [Num 0, Num 0, Num 0]) # tl example_patients)
             = Inr (concat blocks))"
proof -
  have names: "categorical_column_names example_encoder = [''sex'', ''smoker'', ''region'']"
    and cats: "categories example_encoder = [[Str ''female'', Str ''male''],
        [Str ''no'', Str ''yes''],
        [Str ''northeast'', Str ''northwest'', Str ''southeast'', Str ''southwest'']]"
    and oh: "one_hot example_encoder = True"
    by (simp_all add: example_encoder_def)
  have init: "CategoricalEncoder_init example_registry True False = Inr example_encoder"
    by (simp add: CategoricalEncoder_init_def example_registry_def example_encoder_def)
  have fit: "CategoricalEncoder_fit example_encoder example_patients
      = Inr example_fitted_encoder"
    by (simp add: CategoricalEncoder_fit_def encoder_fit_def encode_array_def no_rows_def
        names cats oh example_patients_def encode_column_def example_fitted_encoder_def)
  have dom: "within_domains (categorical_column_names example_encoder)
      (categories example_encoder) example_patients"
    by (simp add: within_domains_def names cats example_patients_def)
  have rows: "\<not> without_rows example_patients (categorical_column_names example_encoder)"
    by (simp add: without_rows_def no_rows_def names column_of_def example_patients_def)
  have same: "same_categorical_columns (categorical_column_names example_encoder)
      example_patients ((''age'', [Num 0, Num 0, Num 0]) # tl example_patients)"
    by (simp add: same_categorical_columns_def names example_patients_def)
  from encoder_output_columns [OF init fit dom rows]
  obtain blocks where
    "CategoricalEncoder_transform example_fitted_encoder example_patients = Inr (concat blocks)"
    and "list_all2 (encoded_from True example_patients)
           (zip (categorical_column_names example_encoder) (categories example_encoder)) blocks"
    and all: "\<forall>Y. same_categorical_columns (categorical_column_names example_encoder)
                example_patients Y \<longrightarrow>
             CategoricalEncoder_transform example_fitted_encoder Y = Inr (concat blocks)"
    by (elim exE conjE)
  moreover from all same
  have "CategoricalEncoder_transform example_fitted_encoder
          ((''age'', [Num 0, Num 0, Num 0]) # tl example_patients) = Inr (concat blocks)"
    by (elim allE impE)
  ultimately show ?thesis
    using init fit dom rows same by (intro conjI exI [of _ blocks])
qed

text \<open>
  The claim C4 as stated fails on a dataset without rows: its values lie in the declared
  categories, there being none, and the encoder refuses it.
\<close>

theorem encoder_no_rows_counterexample:
  "CategoricalEncoder_init example_registry True False = Inr example_encoder
   \<and> CategoricalEncoder_fit example_encoder example_patients = Inr example_fitted_encoder
   \<and> within_domains (categorical_column_names example_encoder) (categories example_encoder)
        [(''age'', []), (''sex'', []), (''smoker'', []), (''region'', [])]
   \<and> CategoricalEncoder_transform example_fitted_encoder
        [(''age'', []), (''sex'', []), (''smoker'', []), (''region'', [])]
      = Inl (ValueError ''Found array with 0 sample(s)'')"
proof -
  have names: "categorical_column_names example_encoder = [''sex'', ''smoker'', ''region'']"
    and cats: "categories example_encoder = [[Str ''female'', Str ''male''],
        [Str ''no'', Str ''yes''],
        [Str ''northeast'', Str ''northwest'', Str ''southeast'', Str ''southwest'']]"
    and oh: "one_hot example_encoder = True"
    by (simp_all add: example_encoder_def)
  have "CategoricalEncoder_init example_registry True False = Inr example_encoder"
    by (simp add: CategoricalEncoder_init_def example_registry_def example_encoder_def)
  moreover have "CategoricalEncoder_fit example_encoder example_patients
      = Inr example_fitted_encoder"
    by (simp add: CategoricalEncoder_fit_def encoder_fit_def encode_array_def no_rows_def
        names cats oh example_patients_def encode_column_def example_fitted_encoder_def)
  moreover have "within_domains (categorical_column_names example_encoder)
      (categories example_encoder)
      [(''age'', []), (''sex'', []), (''smoker'', []), (''region'', [])]"
    by (simp add: within_domains_def names cats)
  moreover have "CategoricalEncoder_transform example_fitted_encoder
        [(''age'', []), (''sex'', []), (''smoker'', []), (''region'', [])]
      = Inl (ValueError ''Found array with 0 sample(s)'')"
    by (simp add: CategoricalEncoder_transform_def example_fitted_encoder_def
        encoder_transform_def encode_array_def no_rows_def names cats)
  ultimately show ?thesis by (intro conjI)
qed

text \<open>
  Claim C5. Let an encoder be constructed from the column registry and fitted, on any
  training data, and let \<open>X\<close> be a dataset with the categorical and binary columns in which
  one of these columns holds a value outside its declared categories. Then \<^verbatim>\<open>transform\<close>
  fails with the ValueError for unknown categories (the specification's
  UnknownCategoryError), whatever the training data were.
\<close>

theorem encoder_unknown_category:
  assumes init: "CategoricalEncoder_init data oh dense = Inr enc"
    and fit: "CategoricalEncoder_fit enc Xtrain = Inr enc'"
    and present: "columns_present (categorical_column_names enc) X"
    and bad: "unknown_category (categorical_column_names enc) (categories enc) X"
  shows "CategoricalEncoder_transform enc' X = Inl (ValueError ''Found unknown categories'')"
proof -
  let ?cs = "categorical_column_names enc" and ?catss = "categories enc"
  from CategoricalEncoder_init_Inr [OF init]
  have oh: "one_hot enc = oh" and len: "length ?catss = length ?cs"
    by simp_all
  let ?cols = "map (column_of X) ?cs"
  have sel: "take_columns X ?cs = Inr ?cols"
    by (rule take_columns_present [OF present])
  from bad obtain i where i: "i < length ?cs" "i < length ?catss"
    and x: "case map_of X (?cs ! i) of None \<Rightarrow> False
            | Some col \<Rightarrow> list_ex (\<lambda>x. x \<notin> set (?catss ! i)) col"
    by (auto simp: unknown_category_def list_ex_length)
  then have unknown: "list_ex (\<lambda>x. x \<notin> set (?catss ! i)) (?cols ! i)"
    by (auto simp: column_of_def split: option.splits)
  then have "?cols ! i \<noteq> []" by auto
  with i have rows: "\<not> no_rows ?cols"
    by (auto simp: no_rows_def list_all_length)
  from unknown i
  have "list_ex (\<lambda>(cats, col). list_ex (\<lambda>x. x \<notin> set cats) col) (zip ?catss ?cols)"
    unfolding list_ex_length [of _ "zip ?catss ?cols"] by (intro exI [of _ i]) simp
  with len have "encode_columns oh ?catss ?cols = Inl (ValueError ''Found unknown categories'')"
    by (intro encode_columns_unknown) simp_all
  with sel rows show ?thesis
    by (simp add: CategoricalEncoder_transform_def CategoricalEncoder_fit_Inr [OF fit]
        encoder_transform_def encode_array_def oh)
qed

theorem encoder_unknown_category_witness:
  "\<exists>enc enc'. CategoricalEncoder_init example_registry False False = Inr enc
     \<and> CategoricalEncoder_fit enc example_patients = Inr enc'
     \<and> columns_present (categorical_column_names enc)
          [(''sex'', [Str ''male'']), (''smoker'', [Str ''no'']), (''region'', [Str ''north''])]
     \<and> unknown_category (categorical_column_names enc) (categories enc)
          [(''sex'', [Str ''male'']), (''smoker'', [Str ''no'']), (''region'', [Str ''north''])]
     \<and> CategoricalEncoder_transform enc'
          [(''sex'', [Str ''male'']), (''smoker'', [Str ''no'']), (''region'', [Str ''north''])]
        = Inl (ValueError ''Found unknown categories'')"
proof -
  let ?X = "[(''sex'', [Str ''male'']), (''smoker'', [Str ''no'']), (''region'', [Str ''north''])]"
  obtain enc where init: "CategoricalEncoder_init example_registry False False = Inr enc"
    and names: "categorical_column_names enc = [''sex'', ''smoker'', ''region'']"
    and cats: "categories enc = [[Str ''female'', Str ''male''], [Str ''no'', Str ''yes''],
        [Str ''northeast'', Str ''northwest'', Str ''southeast'', Str ''southwest'']]"
    and oh: "one_hot enc = False"
    by (simp add: CategoricalEncoder_init_def example_registry_def)
  obtain enc' where fit: "CategoricalEncoder_fit enc example_patients = Inr enc'"
    by (simp add: CategoricalEncoder_fit_def encoder_fit_def encode_array_def no_rows_def
        names cats oh example_patients_def encode_column_def)
  have present: "columns_present (categorical_column_names enc) ?X"
    by (simp add: columns_present_def names)
  have bad: "unknown_category (categorical_column_names enc) (categories enc) ?X"
    by (simp add: unknown_category_def names cats)
  from encoder_unknown_category [OF init fit present bad] init fit present bad
  show ?thesis by blast
qed

section \<open>Use before fit\<close>

text \<open>
  Claim C6, as the code has it. No step checks that it was fitted: a method fails where
  it reads an attribute that \<^verbatim>\<open>fit\<close> would have set, with AttributeError (the
  specification's NotFittedError). \<^verbatim>\<open>CategoricalEncoder.transform\<close> and
  \<^verbatim>\<open>BaggRegressor.predict\<close> read the attribute at once and fail on every input. The
  regressor and the extractor of the average charges read it once for each row of the
  region column, so they fail on every input whose region column has at least one row.
\<close>

theorem use_before_fit_fails:
  "(CategoricalEncoder_init data oh dense = Inr enc \<longrightarrow>
      CategoricalEncoder_transform enc X = Inl (AttributeError ''_column_transformer''))
   \<and> BaggRegressor_predict ensemble_predict None X = Inl (AttributeError ''_model'')
   \<and> (map_of X ''region'' = Some (r # rs) \<longrightarrow>
      AverageChargesPerRegionRegressor_predict None X = Inl (AttributeError ''means_''))
   \<and> (a < length h \<and> map_of (h ! a) ''region'' = Some (r # rs) \<longrightarrow>
      AverageChargesPerRegionExtractor_transform None h a = Inl (AttributeError ''means_''))"
proof -
  have "CategoricalEncoder_transform enc X = Inl (AttributeError ''_column_transformer'')"
    if "CategoricalEncoder_init data oh dense = Inr enc"
    using CategoricalEncoder_init_Inr [OF that] by (simp add: CategoricalEncoder_transform_def)
  moreover have "BaggRegressor_predict ensemble_predict None X = Inl (AttributeError ''_model'')"
    by (simp add: BaggRegressor_predict_def)
  moreover have "AverageChargesPerRegionRegressor_predict None X
      = Inl (AttributeError ''means_'')" if "map_of X ''region'' = Some (r # rs)"
    using that
    by (simp add: AverageChargesPerRegionRegressor_predict_def getitem_def get_average_def)
  moreover have "AverageChargesPerRegionExtractor_transform None h a
      = Inl (AttributeError ''means_'')"
    if "a < length h \<and> map_of (h ! a) ''region'' = Some (r # rs)"
    using that
    by (simp add: AverageChargesPerRegionExtractor_transform_def df_copy_def getitem_def
        get_average_def)
  ultimately show ?thesis by blast
qed

theorem use_before_fit_fails_witness:
  "\<exists>enc. CategoricalEncoder_init example_registry False False = Inr enc
     \<and> CategoricalEncoder_transform enc example_patients
         = Inl (AttributeError ''_column_transformer'')
     \<and> map_of example_patients ''region''
         = Some [Str ''southwest'', Str ''southwest'', Str ''northeast'']
     \<and> AverageChargesPerRegionRegressor_predict None example_patients
         = Inl (AttributeError ''means_'')
     \<and> (0 :: nat) < length [example_patients]
     \<and> map_of ([example_patients] ! 0) ''region''
         = Some [Str ''southwest'', Str ''southwest'', Str ''northeast'']
     \<and> AverageChargesPerRegionExtractor_transform None [example_patients] 0
         = Inl (AttributeError ''means_'')"
proof -
  obtain enc where init: "CategoricalEncoder_init example_registry False False = Inr enc"
    by (simp add: CategoricalEncoder_init_def example_registry_def)
  have region: "map_of example_patients ''region''
         = Some [Str ''southwest'', Str ''southwest'', Str ''northeast'']"
    by (simp add: example_patients_def)
  from use_before_fit_fails
         [where data = example_registry and oh = False and dense = False and enc = enc
            and X = example_patients and r = "Str ''southwest''"
            and rs = "[Str ''southwest'', Str ''northeast'']" and a = 0
            and h = "[example_patients]"]
       init region
  show ?thesis by auto
qed

text \<open>
  The claim C6 as stated fails on a dataset without rows: the unfitted regressor returns
  the empty prediction, since \<^verbatim>\<open>get_average\<close> is never called.
\<close>

theorem predict_before_fit_counterexample:
  "AverageChargesPerRegionRegressor_predict None [(''region'', [])] = Inr []"
  by (simp add: AverageChargesPerRegionRegressor_predict_def getitem_def)

section \<open>The extractor's result and its input\<close>

text \<open>
  Claim C8, as the code has it. Let the dataset at the reference \<open>a\<close> have a column
  \<^verbatim>\<open>region\<close> and no column \<^verbatim>\<open>AverageChargeInRegion\<close>. Then \<^verbatim>\<open>transform\<close> of a
  fitted extractor returns a new dataset: the columns of the input, unchanged and in the
  same order, followed by the one column \<^verbatim>\<open>AverageChargeInRegion\<close>, with a value for
  each row. Every dataset that was in the store, the input among them, is as before.
\<close>

theorem extractor_appends_column:
  assumes "a < length h" and "map_of (h ! a) ''region'' = Some regs"
    and "''AverageChargeInRegion'' \<notin> set (map fst (h ! a))"
  shows "\<exists>col. AverageChargesPerRegionExtractor_transform (Some s) h a
            = Inr (h @ [h ! a @ [(''AverageChargeInRegion'', col)]], length h)
          \<and> length col = length regs"
proof -
  obtain col where col: "series_apply (get_average (Some s)) regs = Inr col"
    "length col = length regs"
    using series_apply_returns [of "get_average (Some s)" regs] get_average_returns by blast
  have "AverageChargesPerRegionExtractor_transform (Some s) h a
      = Inr (h @ [setitem (h ! a) ''AverageChargeInRegion'' col], length h)"
    using assms(1,2) col(1)
    by (simp add: AverageChargesPerRegionExtractor_transform_def df_copy_def getitem_def
        df_setitem_def)
  moreover have "setitem (h ! a) ''AverageChargeInRegion'' col
      = h ! a @ [(''AverageChargeInRegion'', col)]"
    using assms(3) by (simp add: setitem_def)
  ultimately show ?thesis using col(2) by simp
qed

theorem extractor_appends_column_witness:
  "(0 :: nat) < length [example_patients]
   \<and> map_of ([example_patients] ! 0) ''region''
       = Some [Str ''southwest'', Str ''southwest'', Str ''northeast'']
   \<and> ''AverageChargeInRegion'' \<notin> set (map fst ([example_patients] ! 0))
   \<and> (\<exists>col. AverageChargesPerRegionExtractor_transform
              (Some \<lparr>means = [(Str ''southwest'', Num 15)], global_mean = Num 20\<rparr>)
              [example_patients] 0
            = Inr ([example_patients] @ [[example_patients] ! 0 @ [(''AverageChargeInRegion'', col)]],
                   length [example_patients])
          \<and> length col = length [Str ''southwest'', Str ''southwest'', Str ''northeast''])"
proof -
  have region: "map_of ([example_patients] ! 0) ''region''
       = Some [Str ''southwest'', Str ''southwest'', Str ''northeast'']"
    by (simp add: example_patients_def)
  have fresh: "''AverageChargeInRegion'' \<notin> set (map fst ([example_patients] ! 0))"
    by (simp add: example_patients_def)
  have store: "(0 :: nat) < length [example_patients]" by simp
  from extractor_appends_column [OF store region fresh] store region fresh
  show ?thesis by blast
qed

text \<open>
  The claim C8 as stated fails on an input that already has a column
  \<^verbatim>\<open>AverageChargeInRegion\<close>: the assignment overwrites that column where it stands, so
  the result has as many columns as the input and the values of one of them differ. The
  fitted means are those of the example of claim C1.
\<close>

theorem extractor_overwrites_counterexample:
  "AverageChargesPerRegionExtractor_fit
     [(''region'', [Str ''A'', Str ''A'', Str ''B''])] [10, 20, 50]
     = Inr \<lparr>means = [(Str ''A'', Num 15), (Str ''B'', Num 50)], global_mean = Num (80 / 3)\<rparr>
   \<and> AverageChargesPerRegionExtractor_transform
       (Some \<lparr>means = [(Str ''A'', Num 15), (Str ''B'', Num 50)], global_mean = Num (80 / 3)\<rparr>)
       [[(''region'', [Str ''A'']), (''AverageChargeInRegion'', [Num 0]), (''age'', [Num 30])]] 0
     = Inr ([[(''region'', [Str ''A'']), (''AverageChargeInRegion'', [Num 0]), (''age'', [Num 30])],
             [(''region'', [Str ''A'']), (''AverageChargeInRegion'', [Num 15]), (''age'', [Num 30])]],
            1)"
  by (simp add: AverageChargesPerRegionExtractor_fit_def region_y_frame_def getitem_def
      groupby_mean_def mean_def AverageChargesPerRegionExtractor_transform_def df_copy_def
      get_average_def df_setitem_def setitem_def)

end
